theory Spec2Isabelle
  imports Main "HOL-Library.Word" "HOL-Library.Sublist"
begin

section \<open>Data model (pkg/apis/core as used by the Service registry)\<close>

text \<open>
  The Go types are string-typed enumerations; API validation, which runs in
  \<^verbatim>\<open>rest.BeforeCreate\<close> / \<^verbatim>\<open>rest.BeforeUpdate\<close> ahead of the code modelled here,
  admits only the values listed. Slices are lists (a nil slice and an empty slice
  are both \<open>[]\<close>: the code only takes \<^verbatim>\<open>len\<close> of them), a pointer that may be nil is
  an \<open>option\<close>, and \<^verbatim>\<open>int32\<close> is \<open>32 word\<close> read through \<open>sint\<close>. Go's \<^verbatim>\<open>int\<close> holds
  only values converted from \<^verbatim>\<open>int32\<close> or handed out by an allocator and is never
  computed with, so it is \<open>int\<close>. Fields of the Go structs that no function below
  touches live in the extension slot of the records.
\<close>

datatype ServiceType =
  ServiceTypeClusterIP | ServiceTypeNodePort | ServiceTypeLoadBalancer | ServiceTypeExternalName

datatype IPFamily = IPv4Protocol | IPv6Protocol

datatype IPFamilyPolicyType = SingleStack | PreferDualStack | RequireDualStack

datatype ServiceExternalTrafficPolicyType =
  ServiceExternalTrafficPolicyTypeUnset
  | ServiceExternalTrafficPolicyTypeLocal
  | ServiceExternalTrafficPolicyTypeCluster

definition ClusterIPNone :: string where
  "ClusterIPNone = ''None''"

record ServicePort =
  PortName :: string
  Protocol :: string
  Port :: "32 word"
  NodePort :: "32 word"

record ServiceSpec =
  Type :: ServiceType
  Ports :: "ServicePort list"
  Selector :: "(string \<rightharpoonup> string) option"
  ClusterIPs :: "string list"
  IPFamilies :: "IPFamily list"
  IPFamilyPolicy :: "IPFamilyPolicyType option"
  HealthCheckNodePort :: "32 word"
  ExternalTrafficPolicy :: ServiceExternalTrafficPolicyType
  TopologyKeys :: "string list"

record LoadBalancerIngress =
  IP :: string
  Hostname :: string

record LoadBalancerStatus =
  Ingress :: "LoadBalancerIngress list"

record ServiceStatus =
  LoadBalancer :: LoadBalancerStatus

record Service =
  Name :: string
  Namespace :: string
  Spec :: ServiceSpec
  Status :: ServiceStatus

text \<open>The zero values \<^verbatim>\<open>api.LoadBalancerStatus{}\<close> and \<^verbatim>\<open>api.ServiceStatus{}\<close>.\<close>

definition emptyLoadBalancerStatus :: LoadBalancerStatus where
  "emptyLoadBalancerStatus = \<lparr>Ingress = []\<rparr>"

definition emptyServiceStatus :: ServiceStatus where
  "emptyServiceStatus = \<lparr>LoadBalancer = emptyLoadBalancerStatus\<rparr>"

text \<open>A \<^verbatim>\<open>runtime.Object\<close> is a Service or something else.\<close>

datatype Object = ServiceObject Service | OtherObject string

text \<open>
  Errors of \<^verbatim>\<open>k8s.io/apimachinery/pkg/api/errors\<close> by kind. An Invalid error carries the
  field path of its single cause, written as in the Go \<^verbatim>\<open>field.Path\<close>: a list of
  segments. \<open>Panic\<close> stands for a Go run-time panic.
\<close>

datatype PathElem = Child string | Index nat

datatype error =
  Invalid "PathElem list"
  | InternalError string
  | PlainError string
  | StoreError string
  | Panic

section \<open>Strategy (pkg/registry/core/service/strategy.go)\<close>

text \<open>
  The feature gates \<^verbatim>\<open>IPv6DualStack\<close> and \<^verbatim>\<open>ServiceTopology\<close> are process-wide settings
  read through \<^verbatim>\<open>utilfeature.DefaultFeatureGate\<close>; here they are the two fields of a
  record passed to the functions that read them.
\<close>

record FeatureGates =
  IPv6DualStack :: bool
  ServiceTopology :: bool

definition serviceDualStackFieldsInUse :: "Service option \<Rightarrow> bool" where
  "serviceDualStackFieldsInUse svc =
     (case svc of
        None \<Rightarrow> False
      | Some s \<Rightarrow> IPFamilyPolicy (Spec s) \<noteq> None \<or> length (IPFamilies (Spec s)) \<noteq> 0)"

definition topologyKeysInUse :: "Service option \<Rightarrow> bool" where
  "topologyKeysInUse svc =
     (case svc of None \<Rightarrow> False | Some s \<Rightarrow> length (TopologyKeys (Spec s)) > 0)"

definition dropServiceDisabledFields :: "FeatureGates \<Rightarrow> Service \<Rightarrow> Service option \<Rightarrow> Service" where
  "dropServiceDisabledFields gates newSvc oldSvc =
     (let s1 = (if \<not> IPv6DualStack gates \<and> \<not> serviceDualStackFieldsInUse oldSvc
                   \<and> \<not> serviceDualStackFieldsInUse (Some newSvc)
                then newSvc\<lparr>Spec := (Spec newSvc)\<lparr>IPFamilies := [], IPFamilyPolicy := None\<rparr>\<rparr>
                else newSvc)
      in if \<not> ServiceTopology gates \<and> \<not> topologyKeysInUse oldSvc
         then s1\<lparr>Spec := (Spec s1)\<lparr>TopologyKeys := []\<rparr>\<rparr>
         else s1)"

definition clearClusterIPRelatedFields :: "Service \<Rightarrow> Service \<Rightarrow> Service" where
  "clearClusterIPRelatedFields newService oldService =
     (if Type (Spec newService) = ServiceTypeExternalName
         \<and> Type (Spec oldService) \<noteq> ServiceTypeExternalName
      then
        (if length (ClusterIPs (Spec newService)) = 0
            \<or> (length (hd (ClusterIPs (Spec newService))) = 0
                \<and> length (ClusterIPs (Spec newService)) = 1)
         then newService\<lparr>Spec := (Spec newService)
                \<lparr>ClusterIPs := [], IPFamilies := [], IPFamilyPolicy := None\<rparr>\<rparr>
         else newService)
      else newService)"

text \<open>\<^verbatim>\<open>svcStrategy.PrepareForCreate\<close> and \<^verbatim>\<open>svcStrategy.PrepareForUpdate\<close>.\<close>

definition PrepareForCreate :: "FeatureGates \<Rightarrow> Service \<Rightarrow> Service" where
  "PrepareForCreate gates service =
     dropServiceDisabledFields gates (service\<lparr>Status := emptyServiceStatus\<rparr>) None"

definition PrepareForUpdate :: "FeatureGates \<Rightarrow> Service \<Rightarrow> Service \<Rightarrow> Service" where
  "PrepareForUpdate gates newService oldService =
     clearClusterIPRelatedFields
       (dropServiceDisabledFields gates (newService\<lparr>Status := Status oldService\<rparr>) (Some oldService))
       oldService"


text \<open>
  \<^verbatim>\<open>svcStrategy.Export\<close> mutates the object it is given and returns an error or nil;
  the model returns the error or the object as it is after the call.
\<close>

definition Export :: "Object \<Rightarrow> bool \<Rightarrow> error + Service" where
  "Export obj exact =
     (case obj of
        OtherObject d \<Rightarrow> Inl (PlainError (''unexpected object: '' @ d))
      | ServiceObject t0 \<Rightarrow>
          (let t = t0\<lparr>Status := emptyServiceStatus\<rparr> in
           if exact then Inr t
           else
             (let t1 = (if length (ClusterIPs (Spec t)) > 0 \<and> hd (ClusterIPs (Spec t)) \<noteq> ClusterIPNone
                        then t\<lparr>Spec := (Spec t)\<lparr>ClusterIPs := []\<rparr>\<rparr>
                        else t)
              in if Type (Spec t1) = ServiceTypeNodePort
                 then Inr (t1\<lparr>Spec := (Spec t1)\<lparr>Ports := map (\<lambda>p. p\<lparr>NodePort := 0\<rparr>) (Ports (Spec t1))\<rparr>\<rparr>)
                 else Inr t1)))"

section \<open>Collaborators outside the repository's sources\<close>

text \<open>
  \<^verbatim>\<open>net.ParseIP\<close>, \<^verbatim>\<open>net.IP.String\<close> (Go standard library) and \<^verbatim>\<open>netutil.IsIPv6String\<close>
  (k8s.io/utils/net) are parameters: the type \<open>'ip\<close> stands for \<^verbatim>\<open>net.IP\<close>, the nil
  address included.
\<close>

record 'ip netlib =
  ParseIP :: "string \<Rightarrow> 'ip"
  IPString :: "'ip \<Rightarrow> string"
  IsIPv6String :: "string \<Rightarrow> bool"

text \<open>
  Modelled from the spec: \<^verbatim>\<open>ipallocator.Interface\<close> (package
  pkg/registry/core/service/ipallocator), by its contract: Allocate marks an address
  reserved and fails if it is reserved already or outside the CIDR; AllocateNext returns
  any free address and fails if there is none; Release unmarks. Which free address
  AllocateNext hands out is up to the allocator: \<open>nextFree\<close> proposes one from the
  reserved set, and a proposal that is not a free address of the range counts as
  exhaustion, so that every allocator satisfying the contract is an instance.
\<close>

record 'ip IPAllocator =
  inCIDR :: "'ip \<Rightarrow> bool"
  allocatedIPs :: "'ip set"
  nextFree :: "'ip set \<Rightarrow> 'ip option"

definition ipAllocate :: "'ip \<Rightarrow> 'ip IPAllocator \<Rightarrow> error + 'ip IPAllocator" where
  "ipAllocate ip a =
     (if \<not> inCIDR a ip then Inl (PlainError ''provided IP is not in the valid range'')
      else if ip \<in> allocatedIPs a then Inl (PlainError ''provided IP is already allocated'')
      else Inr (a\<lparr>allocatedIPs := insert ip (allocatedIPs a)\<rparr>))"

definition ipAllocateNext :: "'ip IPAllocator \<Rightarrow> error + ('ip \<times> 'ip IPAllocator)" where
  "ipAllocateNext a =
     (case nextFree a (allocatedIPs a) of
        None \<Rightarrow> Inl (PlainError ''range is full'')
      | Some ip \<Rightarrow>
          (if inCIDR a ip \<and> ip \<notin> allocatedIPs a
           then Inr (ip, a\<lparr>allocatedIPs := insert ip (allocatedIPs a)\<rparr>)
           else Inl (PlainError ''range is full'')))"

definition ipRelease :: "'ip \<Rightarrow> 'ip IPAllocator \<Rightarrow> error + 'ip IPAllocator" where
  "ipRelease ip a = Inr (a\<lparr>allocatedIPs := allocatedIPs a - {ip}\<rparr>)"

text \<open>
  Modelled from the spec: \<^verbatim>\<open>portallocator.Interface\<close> (package
  pkg/registry/core/service/portallocator), with the same contract over port numbers.
\<close>

record PortAllocator =
  inPortRange :: "int \<Rightarrow> bool"
  allocatedPorts :: "int set"
  nextFreePort :: "int set \<Rightarrow> int option"

definition portAllocate :: "int \<Rightarrow> PortAllocator \<Rightarrow> error + PortAllocator" where
  "portAllocate port a =
     (if \<not> inPortRange a port then Inl (PlainError ''provided port is not in the valid range'')
      else if port \<in> allocatedPorts a then Inl (PlainError ''provided port is already allocated'')
      else Inr (a\<lparr>allocatedPorts := insert port (allocatedPorts a)\<rparr>))"

definition portAllocateNext :: "PortAllocator \<Rightarrow> error + (int \<times> PortAllocator)" where
  "portAllocateNext a =
     (case nextFreePort a (allocatedPorts a) of
        None \<Rightarrow> Inl (PlainError ''range is full'')
      | Some port \<Rightarrow>
          (if inPortRange a port \<and> port \<notin> allocatedPorts a
           then Inr (port, a\<lparr>allocatedPorts := insert port (allocatedPorts a)\<rparr>)
           else Inl (PlainError ''range is full'')))"

definition portRelease :: "int \<Rightarrow> PortAllocator \<Rightarrow> PortAllocator" where
  "portRelease port a = a\<lparr>allocatedPorts := allocatedPorts a - {port}\<rparr>"

text \<open>
  Modelled from the spec: \<^verbatim>\<open>portallocator.PortAllocationOperation\<close>, the two-phase
  operation of section 4.5: Allocate and AllocateNext reserve in the allocator and stage
  the port; ReleaseDeferred schedules a release that takes effect at Commit; Finish
  undoes every staged allocation unless Commit was called. The operation is owned by
  one request, so it carries the allocator it works on; the request writes the
  allocator back when the operation ends. The spec gives a dry-run operation no
  behaviour of its own; here it stages ports without touching the allocator.
\<close>

record PortAllocationOperation =
  pa :: PortAllocator
  allocated :: "int list"
  releaseDeferred :: "int list"
  shouldRollback :: bool
  dryRun :: bool

definition StartOperation :: "PortAllocator \<Rightarrow> bool \<Rightarrow> PortAllocationOperation" where
  "StartOperation a dry =
     \<lparr>pa = a, allocated = [], releaseDeferred = [], shouldRollback = True, dryRun = dry\<rparr>"

definition opAllocate :: "int \<Rightarrow> PortAllocationOperation \<Rightarrow> error option \<times> PortAllocationOperation" where
  "opAllocate port op =
     (if dryRun op then
        (if \<not> inPortRange (pa op) port then (Some (PlainError ''provided port is not in the valid range''), op)
         else if port \<in> allocatedPorts (pa op) \<or> port \<in> set (allocated op)
         then (Some (PlainError ''provided port is already allocated''), op)
         else (None, op\<lparr>allocated := allocated op @ [port]\<rparr>))
      else
        (case portAllocate port (pa op) of
           Inl err \<Rightarrow> (Some err, op)
         | Inr a \<Rightarrow> (None, op\<lparr>pa := a, allocated := allocated op @ [port]\<rparr>)))"

definition opAllocateNext :: "PortAllocationOperation \<Rightarrow> (error + int) \<times> PortAllocationOperation" where
  "opAllocateNext op =
     (if dryRun op then
        (case nextFreePort (pa op) (allocatedPorts (pa op) \<union> set (allocated op)) of
           None \<Rightarrow> (Inl (PlainError ''range is full''), op)
         | Some port \<Rightarrow>
             (if inPortRange (pa op) port \<and> port \<notin> allocatedPorts (pa op) \<and> port \<notin> set (allocated op)
              then (Inr port, op\<lparr>allocated := allocated op @ [port]\<rparr>)
              else (Inl (PlainError ''range is full''), op)))
      else
        (case portAllocateNext (pa op) of
           Inl err \<Rightarrow> (Inl err, op)
         | Inr (port, a) \<Rightarrow> (Inr port, op\<lparr>pa := a, allocated := allocated op @ [port]\<rparr>)))"

definition ReleaseDeferred :: "int \<Rightarrow> PortAllocationOperation \<Rightarrow> PortAllocationOperation" where
  "ReleaseDeferred port op = op\<lparr>releaseDeferred := releaseDeferred op @ [port]\<rparr>"

definition Rollback :: "PortAllocationOperation \<Rightarrow> PortAllocationOperation" where
  "Rollback op =
     (if dryRun op then op
      else op\<lparr>pa := foldl (\<lambda>a port. portRelease port a) (pa op) (allocated op)\<rparr>)"

definition Finish :: "PortAllocationOperation \<Rightarrow> PortAllocationOperation" where
  "Finish op = (if shouldRollback op then Rollback op else op)"

definition Commit :: "PortAllocationOperation \<Rightarrow> PortAllocationOperation" where
  "Commit op =
     (if dryRun op then op
      else op\<lparr>pa := foldl (\<lambda>a port. portRelease port a) (pa op) (releaseDeferred op),
              shouldRollback := False\<rparr>)"

text \<open>
  Modelled from the spec: \<^verbatim>\<open>apiservice.NeedsHealthCheck\<close> (package pkg/api/service):
  true iff the Service is a LoadBalancer with \<^verbatim>\<open>ExternalTrafficPolicy == Local\<close>.
\<close>

definition NeedsHealthCheck :: "Service \<Rightarrow> bool" where
  "NeedsHealthCheck service =
     (Type (Spec service) = ServiceTypeLoadBalancer
      \<and> ExternalTrafficPolicy (Spec service) = ServiceExternalTrafficPolicyTypeLocal)"

section \<open>REST core (pkg/registry/core/service/storage/rest.go)\<close>

record 'ip REST =
  serviceIPAllocatorsByFamily :: "IPFamily \<rightharpoonup> 'ip IPAllocator"
  defaultServiceIPFamily :: IPFamily
  serviceNodePorts :: PortAllocator

text \<open>
  \<^verbatim>\<open>len(rs.serviceIPAllocatorsByFamily)\<close>: the number of keys of the map.
\<close>

definition lenAllocators :: "'ip REST \<Rightarrow> nat" where
  "lenAllocators rs =
     length (filter (\<lambda>f. serviceIPAllocatorsByFamily rs f \<noteq> None) [IPv4Protocol, IPv6Protocol])"

text \<open>
  A Go \<^verbatim>\<open>range\<close> over a map visits the keys in an order the run time chooses. With two
  address families there are two orders; each loop over a family-keyed map takes the
  order as an argument and visits the families of that order that are keys of the map.
\<close>

datatype MapOrder = V4First | V6First

fun rangeOrder :: "MapOrder \<Rightarrow> IPFamily list" where
  "rangeOrder V4First = [IPv4Protocol, IPv6Protocol]"
| "rangeOrder V6First = [IPv6Protocol, IPv4Protocol]"

subsection \<open>The IP-family defaulter \<^verbatim>\<open>tryDefaultValidateServiceClusterIPFields\<close>\<close>

text \<open>The loop "default families according to cluster IPs" (lines 769-796).\<close>

fun defaultFamiliesLoop ::
  "(string \<Rightarrow> bool) \<Rightarrow> (IPFamily \<Rightarrow> bool) \<Rightarrow> nat \<Rightarrow> string list \<Rightarrow> IPFamily list
     \<Rightarrow> error + IPFamily list" where
  "defaultFamiliesLoop isV6 found i [] fams = Inr fams"
| "defaultFamiliesLoop isV6 found i (ip # ips) fams =
     (if ip = [] \<or> ip = ClusterIPNone then Inr fams
      else if int i > int (length fams) - 1 then
        (if isV6 ip then
           (if \<not> found IPv6Protocol
            then Inl (Invalid [Child ''spec'', Child ''clusterIPs'', Index i])
            else defaultFamiliesLoop isV6 found (Suc i) ips (fams @ [IPv6Protocol]))
         else
           (if \<not> found IPv4Protocol
            then Inl (Invalid [Child ''spec'', Child ''clusterIPs'', Index i])
            else defaultFamiliesLoop isV6 found (Suc i) ips (fams @ [IPv4Protocol])))
      else defaultFamiliesLoop isV6 found (Suc i) ips fams)"

text \<open>
  The test \<^verbatim>\<open>len(ClusterIPs) > 0 && ClusterIPs[0] == None && Selector == nil\<close>, written
  twice in the function (lines 799 and 830).
\<close>

definition headlessWithoutSelector :: "Service \<Rightarrow> bool" where
  "headlessWithoutSelector service =
     (length (ClusterIPs (Spec service)) > 0 \<and> hd (ClusterIPs (Spec service)) = ClusterIPNone
      \<and> Selector (Spec service) = None)"

text \<open>
  The loop "if there is a family requested then it has to be configured on cluster"
  (lines 849-854): the error of the first family without an allocator.
\<close>

fun familiesConfiguredLoop :: "(IPFamily \<Rightarrow> bool) \<Rightarrow> nat \<Rightarrow> IPFamily list \<Rightarrow> error option" where
  "familiesConfiguredLoop found i [] = None"
| "familiesConfiguredLoop found i (ipFamily # fs) =
     (if \<not> found ipFamily then Some (Invalid [Child ''spec'', Child ''ipFamilies'', Index i])
      else familiesConfiguredLoop found (Suc i) fs)"

text \<open>
  The function is modelled in two parts, cut where the first headless test has not
  returned. The first part (lines 755-827) either returns from the function or
  continues with the Service as it is then.
\<close>

datatype flow = Returned "error + Service" | Continue Service

definition defaultHeadlessSelectorless :: "'ip netlib \<Rightarrow> 'ip REST \<Rightarrow> Service \<Rightarrow> flow" where
  "defaultHeadlessSelectorless L rs service =
     (if Type (Spec service) = ServiceTypeExternalName then Returned (Inr service)
      else if IPFamilyPolicy (Spec service) \<noteq> None
              \<and> (length (ClusterIPs (Spec service)) = 2 \<or> length (IPFamilies (Spec service)) = 2)
              \<and> the (IPFamilyPolicy (Spec service)) \<noteq> RequireDualStack
      then Returned (Inl (Invalid [Child ''spec'', Child ''ipFamilyPolicy'']))
      else
        (case defaultFamiliesLoop (IsIPv6String L)
                (\<lambda>f. serviceIPAllocatorsByFamily rs f \<noteq> None) 0
                (ClusterIPs (Spec service)) (IPFamilies (Spec service)) of
           Inl err \<Rightarrow> Returned (Inl err)
         | Inr fams \<Rightarrow>
             (let s1 = service\<lparr>Spec := (Spec service)\<lparr>IPFamilies := fams\<rparr>\<rparr> in
              if headlessWithoutSelector s1 then
                (let s2 = (if IPFamilyPolicy (Spec s1) = None
                           then s1\<lparr>Spec := (Spec s1)\<lparr>IPFamilyPolicy := Some RequireDualStack\<rparr>\<rparr>
                           else s1);
                     s3 = (if length (IPFamilies (Spec s2)) = 0
                           then s2\<lparr>Spec := (Spec s2)\<lparr>IPFamilies := [defaultServiceIPFamily rs]\<rparr>\<rparr>
                           else s2);
                     s4 = (if length (IPFamilies (Spec s3)) < 2 then
                             (if the (IPFamilyPolicy (Spec s3)) = RequireDualStack
                                 \<or> (the (IPFamilyPolicy (Spec s3)) = PreferDualStack \<and> lenAllocators rs = 2)
                              then
                                (if hd (IPFamilies (Spec s3)) = IPv4Protocol
                                 then s3\<lparr>Spec := (Spec s3)\<lparr>IPFamilies := IPFamilies (Spec s3) @ [IPv6Protocol]\<rparr>\<rparr>
                                 else s3\<lparr>Spec := (Spec s3)\<lparr>IPFamilies := IPFamilies (Spec s3) @ [IPv4Protocol]\<rparr>\<rparr>)
                              else s3)
                           else s3)
                 in Returned (Inr s4))
              else Continue s1)))"

text \<open>
  The second part (lines 829-885), from the comment "ipfamily check" to the end. Beside
  its result it gives the lines it writes with \<^verbatim>\<open>klog\<close>.
\<close>

definition validateAndDefaultFamilies :: "'ip REST \<Rightarrow> Service \<Rightarrow> (error + Service) \<times> string list" where
  "validateAndDefaultFamilies rs service =
     (let (checked, logged) =
        (if headlessWithoutSelector service
         then (None, [''is a headless service. no validation will be perfomed on its ipfamilies''])
         else if IPFamilyPolicy (Spec service) \<noteq> None
                 \<and> the (IPFamilyPolicy (Spec service)) = RequireDualStack \<and> lenAllocators rs < 2
         then (Some (Invalid [Child ''spec'', Child ''ipFamilyPolicy'']), [])
         else (familiesConfiguredLoop (\<lambda>f. serviceIPAllocatorsByFamily rs f \<noteq> None) 0
                 (IPFamilies (Spec service)), []))
      in case checked of
           Some err \<Rightarrow> (Inl err, logged)
         | None \<Rightarrow>
             (let s1 = (if IPFamilyPolicy (Spec service) = None
                        then service\<lparr>Spec := (Spec service)\<lparr>IPFamilyPolicy := Some SingleStack\<rparr>\<rparr>
                        else service);
                  s2 = (if length (IPFamilies (Spec s1)) = 0
                        then s1\<lparr>Spec := (Spec s1)\<lparr>IPFamilies := [defaultServiceIPFamily rs]\<rparr>\<rparr>
                        else s1);
                  s3 = (if the (IPFamilyPolicy (Spec s2)) \<noteq> SingleStack
                           \<and> length (IPFamilies (Spec s2)) = 1 \<and> lenAllocators rs = 2
                        then
                          (let a = (if hd (IPFamilies (Spec s2)) = IPv4Protocol
                                    then s2\<lparr>Spec := (Spec s2)\<lparr>IPFamilies := IPFamilies (Spec s2) @ [IPv6Protocol]\<rparr>\<rparr>
                                    else s2)
                           in if hd (IPFamilies (Spec a)) = IPv6Protocol
                              then a\<lparr>Spec := (Spec a)\<lparr>IPFamilies := IPFamilies (Spec a) @ [IPv4Protocol]\<rparr>\<rparr>
                              else a)
                        else s2)
              in (Inr s3, logged)))"

definition tryDefaultValidateServiceClusterIPFields ::
  "'ip netlib \<Rightarrow> 'ip REST \<Rightarrow> Service \<Rightarrow> error + Service" where
  "tryDefaultValidateServiceClusterIPFields L rs service =
     (case defaultHeadlessSelectorless L rs service of
        Returned r \<Rightarrow> r
      | Continue s \<Rightarrow> fst (validateAndDefaultFamilies rs s))"

subsection \<open>Cluster-IP allocation and release\<close>

text \<open>
  \<^verbatim>\<open>allocClusterIPs\<close>: the loop over the map \<open>toAlloc\<close>. The Service argument of the Go
  function only feeds the error text and is left out. The allocator of a family is
  looked up without a test ("should always be there, as we pre validate"): calling a
  method of the nil interface is a run-time panic.
\<close>

fun allocClusterIPsLoop ::
  "'ip netlib \<Rightarrow> IPFamily list \<Rightarrow> (IPFamily \<rightharpoonup> string) \<Rightarrow> 'ip REST \<Rightarrow> (IPFamily \<rightharpoonup> string)
     \<Rightarrow> ((IPFamily \<rightharpoonup> string) \<times> error option) \<times> 'ip REST" where
  "allocClusterIPsLoop L [] toAlloc rs allocd = ((allocd, None), rs)"
| "allocClusterIPsLoop L (family # fs) toAlloc rs allocd =
     (case toAlloc family of
        None \<Rightarrow> allocClusterIPsLoop L fs toAlloc rs allocd
      | Some ip \<Rightarrow>
          (case serviceIPAllocatorsByFamily rs family of
             None \<Rightarrow> ((allocd, Some Panic), rs)
           | Some allocator \<Rightarrow>
               (if ip = [] then
                  (case ipAllocateNext allocator of
                     Inl err \<Rightarrow> ((allocd, Some (InternalError ''failed to allocate a serviceIP'')), rs)
                   | Inr (allocatedIP, a) \<Rightarrow>
                       allocClusterIPsLoop L fs toAlloc
                         (rs\<lparr>serviceIPAllocatorsByFamily := (serviceIPAllocatorsByFamily rs)(family \<mapsto> a)\<rparr>)
                         (allocd(family \<mapsto> IPString L allocatedIP)))
                else
                  (case ipAllocate (ParseIP L ip) allocator of
                     Inl err \<Rightarrow> ((allocd, Some (Invalid [Child ''spec'', Child ''clusterIPs''])), rs)
                   | Inr a \<Rightarrow>
                       allocClusterIPsLoop L fs toAlloc
                         (rs\<lparr>serviceIPAllocatorsByFamily := (serviceIPAllocatorsByFamily rs)(family \<mapsto> a)\<rparr>)
                         (allocd(family \<mapsto> ip))))))"

definition allocClusterIPs ::
  "'ip netlib \<Rightarrow> MapOrder \<Rightarrow> 'ip REST \<Rightarrow> (IPFamily \<rightharpoonup> string)
     \<Rightarrow> ((IPFamily \<rightharpoonup> string) \<times> error option) \<times> 'ip REST" where
  "allocClusterIPs L order rs toAlloc = allocClusterIPsLoop L (rangeOrder order) toAlloc rs Map.empty"

text \<open>\<^verbatim>\<open>releaseClusterIPs\<close>: a nil map is \<open>None\<close>.\<close>

fun releaseClusterIPsLoop ::
  "'ip netlib \<Rightarrow> IPFamily list \<Rightarrow> (IPFamily \<rightharpoonup> string) \<Rightarrow> 'ip REST \<Rightarrow> (IPFamily \<rightharpoonup> string)
     \<Rightarrow> ((IPFamily \<rightharpoonup> string) \<times> error option) \<times> 'ip REST" where
  "releaseClusterIPsLoop L [] toRelease rs released = ((released, None), rs)"
| "releaseClusterIPsLoop L (family # fs) toRelease rs released =
     (case toRelease family of
        None \<Rightarrow> releaseClusterIPsLoop L fs toRelease rs released
      | Some ip \<Rightarrow>
          (case serviceIPAllocatorsByFamily rs family of
             None \<Rightarrow> releaseClusterIPsLoop L fs toRelease rs released
           | Some allocator \<Rightarrow>
               (case ipRelease (ParseIP L ip) allocator of
                  Inl err \<Rightarrow> ((released, Some err), rs)
                | Inr a \<Rightarrow>
                    releaseClusterIPsLoop L fs toRelease
                      (rs\<lparr>serviceIPAllocatorsByFamily := (serviceIPAllocatorsByFamily rs)(family \<mapsto> a)\<rparr>)
                      (released(family \<mapsto> ip)))))"

definition releaseClusterIPs ::
  "'ip netlib \<Rightarrow> MapOrder \<Rightarrow> 'ip REST \<Rightarrow> (IPFamily \<rightharpoonup> string) option
     \<Rightarrow> ((IPFamily \<rightharpoonup> string) option \<times> error option) \<times> 'ip REST" where
  "releaseClusterIPs L order rs toRelease =
     (case toRelease of
        None \<Rightarrow> ((None, None), rs)
      | Some m \<Rightarrow>
          (case releaseClusterIPsLoop L (rangeOrder order) m rs Map.empty of
             ((released, err), rs') \<Rightarrow> ((Some released, err), rs')))"

text \<open>
  \<^verbatim>\<open>allocServiceClusterIPs\<close>. The first loop pads \<^verbatim>\<open>ClusterIPs\<close> with empty markers and
  fills \<open>toAlloc\<close>; after a successful allocation the second writes the addresses back.
  Every index read or written is below the length reached by the padding.
\<close>

fun toAllocLoop ::
  "nat \<Rightarrow> IPFamily list \<Rightarrow> string list \<Rightarrow> (IPFamily \<rightharpoonup> string)
     \<Rightarrow> string list \<times> (IPFamily \<rightharpoonup> string)" where
  "toAllocLoop i [] cips toAlloc = (cips, toAlloc)"
| "toAllocLoop i (ipFamily # fs) cips toAlloc =
     (let cips' = (if int i > int (length cips) - 1 then cips @ [[]] else cips)
      in toAllocLoop (Suc i) fs cips' (toAlloc(ipFamily \<mapsto> cips' ! i)))"

definition setClusterIPsOfFamily :: "IPFamily \<Rightarrow> string \<Rightarrow> IPFamily list \<Rightarrow> string list \<Rightarrow> string list" where
  "setClusterIPsOfFamily family ip fams cips =
     foldl (\<lambda>c i. if family = fams ! i then c[i := ip] else c) cips [0..<length fams]"

definition backfillClusterIPs ::
  "IPFamily list \<Rightarrow> (IPFamily \<rightharpoonup> string) \<Rightarrow> IPFamily list \<Rightarrow> string list \<Rightarrow> string list" where
  "backfillClusterIPs order allocd fams cips =
     foldl (\<lambda>c family. case allocd family of None \<Rightarrow> c
                        | Some ip \<Rightarrow> setClusterIPsOfFamily family ip fams c) cips order"

definition allocServiceClusterIPs ::
  "'ip netlib \<Rightarrow> MapOrder \<Rightarrow> MapOrder \<Rightarrow> 'ip REST \<Rightarrow> Service
     \<Rightarrow> ((IPFamily \<rightharpoonup> string) option \<times> error option) \<times> Service \<times> 'ip REST" where
  "allocServiceClusterIPs L order fill rs service =
     (if Type (Spec service) = ServiceTypeExternalName then ((None, None), service, rs)
      else if length (ClusterIPs (Spec service)) > 0 \<and> hd (ClusterIPs (Spec service)) = ClusterIPNone
      then ((None, None), service, rs)
      else
        (let (cips, toAlloc) = toAllocLoop 0 (IPFamilies (Spec service)) (ClusterIPs (Spec service)) Map.empty;
             service1 = service\<lparr>Spec := (Spec service)\<lparr>ClusterIPs := cips\<rparr>\<rparr>
         in case allocClusterIPs L order rs toAlloc of
              ((allocd, Some err), rs') \<Rightarrow> ((Some allocd, Some err), service1, rs')
            | ((allocd, None), rs') \<Rightarrow>
                ((Some allocd, None),
                 service1\<lparr>Spec := (Spec service1)
                   \<lparr>ClusterIPs := backfillClusterIPs (rangeOrder fill) allocd (IPFamilies (Spec service1)) cips\<rparr>\<rparr>,
                 rs')))"

text \<open>
  \<^verbatim>\<open>releaseServiceClusterIPs\<close>. \<^verbatim>\<open>ClusterIPs[i]\<close> is read for every index of
  \<^verbatim>\<open>IPFamilies\<close>; beyond the length of \<^verbatim>\<open>ClusterIPs\<close> that is a run-time panic.
\<close>

fun toReleaseLoop ::
  "nat \<Rightarrow> IPFamily list \<Rightarrow> string list \<Rightarrow> (IPFamily \<rightharpoonup> string) \<Rightarrow> (IPFamily \<rightharpoonup> string) option" where
  "toReleaseLoop i [] cips toRelease = Some toRelease"
| "toReleaseLoop i (ipFamily # fs) cips toRelease =
     (if i < length cips then toReleaseLoop (Suc i) fs cips (toRelease(ipFamily \<mapsto> cips ! i))
      else None)"

definition releaseServiceClusterIPs ::
  "'ip netlib \<Rightarrow> MapOrder \<Rightarrow> 'ip REST \<Rightarrow> Service
     \<Rightarrow> ((IPFamily \<rightharpoonup> string) option \<times> error option) \<times> 'ip REST" where
  "releaseServiceClusterIPs L order rs service =
     (if Type (Spec service) = ServiceTypeExternalName then ((None, None), rs)
      else if length (ClusterIPs (Spec service)) > 0 \<and> hd (ClusterIPs (Spec service)) = ClusterIPNone
      then ((None, None), rs)
      else
        (case toReleaseLoop 0 (IPFamilies (Spec service)) (ClusterIPs (Spec service)) Map.empty of
           None \<Rightarrow> ((None, Some Panic), rs)
         | Some toRelease \<Rightarrow> releaseClusterIPs L order rs (Some toRelease)))"

subsection \<open>Node ports\<close>

fun findRequestedNodePort :: "int \<Rightarrow> ServicePort list \<Rightarrow> int" where
  "findRequestedNodePort port [] = 0"
| "findRequestedNodePort port (servicePort # servicePorts) =
     (if port = sint (Port servicePort) \<and> NodePort servicePort \<noteq> 0
      then sint (NodePort servicePort)
      else findRequestedNodePort port servicePorts)"

text \<open>Reading a Go \<^verbatim>\<open>map[int]int\<close> gives 0 for a key that is not there.\<close>

definition lookupNodePort :: "(int \<rightharpoonup> int) \<Rightarrow> int \<Rightarrow> int" where
  "lookupNodePort m k = (case m k of None \<Rightarrow> 0 | Some v \<Rightarrow> v)"

text \<open>
  \<^verbatim>\<open>initNodePorts\<close>: the loop over the indices of \<^verbatim>\<open>service.Spec.Ports\<close>, which updates the
  entries in place; \<^verbatim>\<open>findRequestedNodePort\<close> reads the list as it is at that moment.
\<close>

fun initNodePortsLoop ::
  "nat list \<Rightarrow> ServicePort list \<Rightarrow> (int \<rightharpoonup> int) \<Rightarrow> PortAllocationOperation
     \<Rightarrow> error option \<times> ServicePort list \<times> PortAllocationOperation" where
  "initNodePortsLoop [] ports svcPortToNodePort op = (None, ports, op)"
| "initNodePortsLoop (i # is) ports svcPortToNodePort op =
     (let servicePort = ports ! i;
          allocatedNodePort = lookupNodePort svcPortToNodePort (sint (Port servicePort))
      in if allocatedNodePort = 0 then
           (let np = findRequestedNodePort (sint (Port servicePort)) ports in
            if np \<noteq> 0 then
              (case opAllocate np op of
                 (Some err, op') \<Rightarrow>
                   (Some (Invalid [Child ''spec'', Child ''ports'', Index i, Child ''nodePort'']), ports, op')
               | (None, op') \<Rightarrow>
                   initNodePortsLoop is (ports[i := servicePort\<lparr>NodePort := word_of_int np\<rparr>])
                     (svcPortToNodePort(sint (Port servicePort) \<mapsto> np)) op')
            else
              (case opAllocateNext op of
                 (Inl err, op') \<Rightarrow> (Some (InternalError ''failed to allocate a nodePort''), ports, op')
               | (Inr nodePort, op') \<Rightarrow>
                   initNodePortsLoop is (ports[i := servicePort\<lparr>NodePort := word_of_int nodePort\<rparr>])
                     (svcPortToNodePort(sint (Port servicePort) \<mapsto> nodePort)) op'))
         else if sint (NodePort servicePort) \<noteq> allocatedNodePort then
           (if NodePort servicePort = 0 then
              initNodePortsLoop is (ports[i := servicePort\<lparr>NodePort := word_of_int allocatedNodePort\<rparr>])
                svcPortToNodePort op
            else
              (case opAllocate (sint (NodePort servicePort)) op of
                 (Some err, op') \<Rightarrow>
                   (Some (Invalid [Child ''spec'', Child ''ports'', Index i, Child ''nodePort'']), ports, op')
               | (None, op') \<Rightarrow> initNodePortsLoop is ports svcPortToNodePort op'))
         else initNodePortsLoop is ports svcPortToNodePort op)"

definition initNodePorts ::
  "Service \<Rightarrow> PortAllocationOperation \<Rightarrow> error option \<times> Service \<times> PortAllocationOperation" where
  "initNodePorts service nodePortOp =
     (case initNodePortsLoop [0..<length (Ports (Spec service))] (Ports (Spec service)) Map.empty nodePortOp of
        (err, ports, op') \<Rightarrow> (err, service\<lparr>Spec := (Spec service)\<lparr>Ports := ports\<rparr>\<rparr>, op'))"

definition allocateHealthCheckNodePort ::
  "Service \<Rightarrow> PortAllocationOperation \<Rightarrow> error option \<times> Service \<times> PortAllocationOperation" where
  "allocateHealthCheckNodePort service nodePortOp =
     (let healthCheckNodePort = HealthCheckNodePort (Spec service) in
      if healthCheckNodePort \<noteq> 0 then
        (case opAllocate (sint healthCheckNodePort) nodePortOp of
           (Some err, op') \<Rightarrow> (Some (PlainError ''failed to allocate requested HealthCheck NodePort''), service, op')
         | (None, op') \<Rightarrow> (None, service, op'))
      else
        (case opAllocateNext nodePortOp of
           (Inl err, op') \<Rightarrow> (Some (PlainError ''failed to allocate a HealthCheck NodePort''), service, op')
         | (Inr port, op') \<Rightarrow>
             (None, service\<lparr>Spec := (Spec service)\<lparr>HealthCheckNodePort := word_of_int port\<rparr>\<rparr>, op')))"

text \<open>
  \<^verbatim>\<open>healthCheckNodePortUpdate\<close> returns \<^verbatim>\<open>(bool, error)\<close>; the Service and the operation it
  was given are returned as they are after the call.
\<close>

definition healthCheckNodePortUpdate ::
  "Service \<Rightarrow> Service \<Rightarrow> PortAllocationOperation
     \<Rightarrow> (bool \<times> error option) \<times> Service \<times> PortAllocationOperation" where
  "healthCheckNodePortUpdate oldService service nodePortOp =
     (let neededHealthCheckNodePort = NeedsHealthCheck oldService;
          oldHealthCheckNodePort = HealthCheckNodePort (Spec oldService);
          needsHealthCheckNodePort = NeedsHealthCheck service;
          newHealthCheckNodePort = HealthCheckNodePort (Spec service)
      in if \<not> neededHealthCheckNodePort \<and> needsHealthCheckNodePort then
           (case allocateHealthCheckNodePort service nodePortOp of
              (Some err, service', op') \<Rightarrow>
                ((False, Some (InternalError ''failed to allocate HealthCheck NodePort'')), service', op')
            | (None, service', op') \<Rightarrow> ((True, None), service', op'))
         else if neededHealthCheckNodePort \<and> \<not> needsHealthCheckNodePort then
           ((True, None),
            service\<lparr>Spec := (Spec service)\<lparr>HealthCheckNodePort := 0\<rparr>\<rparr>,
            ReleaseDeferred (sint oldHealthCheckNodePort) nodePortOp)
         else if neededHealthCheckNodePort \<and> needsHealthCheckNodePort then
           (if oldHealthCheckNodePort \<noteq> newHealthCheckNodePort
            then ((False, Some (Invalid [Child ''spec'', Child ''healthCheckNodePort''])), service, nodePortOp)
            else ((True, None), service, nodePortOp))
         else ((True, None), service, nodePortOp))"

subsection \<open>Create\<close>

text \<open>
  What \<^verbatim>\<open>REST.Create\<close> calls outside the files modelled here is a parameter:
  \<^verbatim>\<open>rest.BeforeCreate\<close> with the strategy (it updates the object in place or fails),
  \<^verbatim>\<open>validation.ValidateServiceExternalTrafficFieldsCombination\<close> (the paths of the
  errors it finds), the object store's \<^verbatim>\<open>Create\<close>, and \<^verbatim>\<open>rest.CheckGeneratedNameError\<close>,
  which maps a store error to the error returned.
\<close>

record Collaborators =
  BeforeCreate :: "Service \<Rightarrow> error + Service"
  ValidateServiceExternalTrafficFieldsCombination :: "Service \<Rightarrow> PathElem list list"
  servicesCreate :: "Service \<Rightarrow> error + Service"
  CheckGeneratedNameError :: "error \<Rightarrow> Service \<Rightarrow> error"

text \<open>The orders of the three loops over family-keyed maps that a call may run.\<close>

record RangeOrders =
  allocOrder :: MapOrder
  fillOrder :: MapOrder
  releaseOrder :: MapOrder

text \<open>
  Lines 238-270 of \<^verbatim>\<open>Create\<close>: node ports, health-check node port, validation of the
  external-traffic fields, the store, and the commit of the node-port operation when the
  store succeeds.
\<close>

definition createNodePortsAndStore ::
  "Collaborators \<Rightarrow> Service \<Rightarrow> PortAllocationOperation \<Rightarrow> (error + Service) \<times> PortAllocationOperation" where
  "createNodePortsAndStore X service nodePortOp =
     (case (if Type (Spec service) = ServiceTypeNodePort \<or> Type (Spec service) = ServiceTypeLoadBalancer
            then initNodePorts service nodePortOp
            else (None, service, nodePortOp)) of
        (Some err, service1, op1) \<Rightarrow> (Inl err, op1)
      | (None, service1, op1) \<Rightarrow>
          (case (if NeedsHealthCheck service1
                 then allocateHealthCheckNodePort service1 op1
                 else (None, service1, op1)) of
             (Some err, service2, op2) \<Rightarrow> (Inl (InternalError ''health check node port''), op2)
           | (None, service2, op2) \<Rightarrow>
               (case ValidateServiceExternalTrafficFieldsCombination X service2 of
                  p # ps \<Rightarrow> (Inl (Invalid p), op2)
                | [] \<Rightarrow>
                    (case servicesCreate X service2 of
                       Inl err \<Rightarrow> (Inl (CheckGeneratedNameError X err service2), op2)
                     | Inr out \<Rightarrow> (Inr out, Commit op2)))))"

text \<open>
  \<^verbatim>\<open>REST.Create\<close>, with the state of the allocators after the call. The two deferred
  calls run on every exit after their \<^verbatim>\<open>defer\<close> statement, last one first:
  \<^verbatim>\<open>nodePortOp.Finish()\<close>, then the release of \<open>toReleaseclusterIPs\<close> as that variable
  is at the exit. A panic inside \<^verbatim>\<open>allocServiceClusterIPs\<close> leaves the variable nil.
\<close>

definition Create ::
  "'ip netlib \<Rightarrow> Collaborators \<Rightarrow> RangeOrders \<Rightarrow> 'ip REST \<Rightarrow> Service \<Rightarrow> bool
     \<Rightarrow> (error + Service) \<times> 'ip REST" where
  "Create L X ord rs obj dry =
     (case BeforeCreate X obj of
        Inl err \<Rightarrow> (Inl err, rs)
      | Inr service \<Rightarrow>
          (case tryDefaultValidateServiceClusterIPFields L rs service of
             Inl err \<Rightarrow> (Inl err, snd (releaseClusterIPs L (releaseOrder ord) rs None))
           | Inr service1 \<Rightarrow>
               (case (if \<not> dry
                      then allocServiceClusterIPs L (allocOrder ord) (fillOrder ord) rs service1
                      else ((None, None), service1, rs)) of
                  ((toRelease, Some err), service2, rs2) \<Rightarrow>
                    (Inl err,
                     snd (releaseClusterIPs L (releaseOrder ord) rs2
                            (if err = Panic then None else toRelease)))
                | ((toRelease, None), service2, rs2) \<Rightarrow>
                    (case createNodePortsAndStore X service2 (StartOperation (serviceNodePorts rs2) dry) of
                       (result, nodePortOp) \<Rightarrow>
                         (let rs3 = rs2\<lparr>serviceNodePorts := pa (Finish nodePortOp)\<rparr>
                          in (result,
                              snd (releaseClusterIPs L (releaseOrder ord) rs3
                                     (case result of Inl err \<Rightarrow> toRelease | Inr out \<Rightarrow> None))))))))"

section \<open>Vocabulary of the properties\<close>





definition familyConfigured :: "'ip REST \<Rightarrow> IPFamily \<Rightarrow> bool" where
  "familyConfigured rs f = (serviceIPAllocatorsByFamily rs f \<noteq> None)"



text \<open>
  What a request holds while it runs. \<open>allocatedOver L rs0 rs allocd\<close>: the state \<open>rs\<close>
  is \<open>rs0\<close> with, for every family of the map \<open>allocd\<close>, the address of the map
  reserved on top of what was reserved in \<open>rs0\<close>, where it was free.
  \<open>stagedOver pa0 op\<close>: the operation \<open>op\<close>, not a dry run and not committed, works on
  the allocator \<open>pa0\<close> with its staged ports reserved on top, where they were free.
\<close>

definition allocatedOver ::
  "'ip netlib \<Rightarrow> 'ip REST \<Rightarrow> 'ip REST \<Rightarrow> (IPFamily \<rightharpoonup> string) \<Rightarrow> bool" where
  "allocatedOver L rs0 rs allocd \<longleftrightarrow>
     rs = rs0\<lparr>serviceIPAllocatorsByFamily := serviceIPAllocatorsByFamily rs\<rparr>
     \<and> (\<forall>f. case allocd f of
              None \<Rightarrow> serviceIPAllocatorsByFamily rs f = serviceIPAllocatorsByFamily rs0 f
            | Some s \<Rightarrow>
                (\<exists>a. serviceIPAllocatorsByFamily rs0 f = Some a
                     \<and> ParseIP L s \<notin> allocatedIPs a
                     \<and> serviceIPAllocatorsByFamily rs f
                         = Some (a\<lparr>allocatedIPs := insert (ParseIP L s) (allocatedIPs a)\<rparr>)))"

definition stagedOver :: "PortAllocator \<Rightarrow> PortAllocationOperation \<Rightarrow> bool" where
  "stagedOver pa0 op \<longleftrightarrow>
     \<not> dryRun op \<and> shouldRollback op
     \<and> set (allocated op) \<inter> allocatedPorts pa0 = {}
     \<and> pa op = pa0\<lparr>allocatedPorts := allocatedPorts pa0 \<union> set (allocated op)\<rparr>"

section \<open>Concrete configurations\<close>

text \<open>
  A cluster whose addresses are kept in textual form, with small ranges, used to run
  the functions on concrete requests.
\<close>

definition hasColon :: "string \<Rightarrow> bool" where
  "hasColon s = (CHR '':'' \<in> set s)"

definition textualNet :: "string netlib" where
  "textualNet = \<lparr>ParseIP = id, IPString = id, IsIPv6String = hasColon\<rparr>"

definition firstFree :: "'a list \<Rightarrow> 'a set \<Rightarrow> 'a option" where
  "firstFree xs used = find (\<lambda>x. x \<notin> used) xs"

definition exampleV4Range :: "string list" where
  "exampleV4Range = [''10.0.0.1'', ''10.0.0.2'', ''10.0.0.3'']"

definition exampleV6Range :: "string list" where
  "exampleV6Range = [''2001:db8::1'', ''2001:db8::2'']"

definition memberOf :: "'a list \<Rightarrow> 'a \<Rightarrow> bool" where
  "memberOf xs x = (x \<in> set xs)"

definition exampleV4Allocator :: "string IPAllocator" where
  "exampleV4Allocator =
     \<lparr>inCIDR = memberOf exampleV4Range, allocatedIPs = {}, nextFree = firstFree exampleV4Range\<rparr>"

definition exampleV6Allocator :: "string IPAllocator" where
  "exampleV6Allocator =
     \<lparr>inCIDR = memberOf exampleV6Range, allocatedIPs = {}, nextFree = firstFree exampleV6Range\<rparr>"

definition examplePortRange :: "int list" where
  "examplePortRange = [30000, 30001, 30002, 30003]"

definition examplePortAllocator :: PortAllocator where
  "examplePortAllocator =
     \<lparr>inPortRange = memberOf examplePortRange, allocatedPorts = {},
      nextFreePort = firstFree examplePortRange\<rparr>"

definition singleStackREST :: "string REST" where
  "singleStackREST =
     \<lparr>serviceIPAllocatorsByFamily = [IPv4Protocol \<mapsto> exampleV4Allocator],
      defaultServiceIPFamily = IPv4Protocol,
      serviceNodePorts = examplePortAllocator\<rparr>"

definition dualStackREST :: "string REST" where
  "dualStackREST =
     \<lparr>serviceIPAllocatorsByFamily = [IPv4Protocol \<mapsto> exampleV4Allocator, IPv6Protocol \<mapsto> exampleV6Allocator],
      defaultServiceIPFamily = IPv4Protocol,
      serviceNodePorts = examplePortAllocator\<rparr>"

definition exampleSpec :: ServiceSpec where
  "exampleSpec =
     \<lparr>Type = ServiceTypeClusterIP, Ports = [], Selector = None, ClusterIPs = [],
      IPFamilies = [], IPFamilyPolicy = None, HealthCheckNodePort = 0,
      ExternalTrafficPolicy = ServiceExternalTrafficPolicyTypeUnset, TopologyKeys = []\<rparr>"

definition exampleService :: Service where
  "exampleService =
     \<lparr>Name = ''foo'', Namespace = ''bar'', Spec = exampleSpec, Status = emptyServiceStatus\<rparr>"

definition examplePort :: "32 word \<Rightarrow> 32 word \<Rightarrow> ServicePort" where
  "examplePort p np = \<lparr>PortName = [], Protocol = ''TCP'', Port = p, NodePort = np\<rparr>"

text \<open>Collaborators that accept every object, with a store that refuses or accepts.\<close>

definition noErrors :: "Service \<Rightarrow> PathElem list list" where
  "noErrors service = []"

definition storeRefuses :: "Service \<Rightarrow> error + Service" where
  "storeRefuses service = Inl (StoreError ''AlreadyExists'')"

definition storeAccepts :: "Service \<Rightarrow> error + Service" where
  "storeAccepts service = Inr service"

definition sameError :: "error \<Rightarrow> Service \<Rightarrow> error" where
  "sameError err service = err"

definition refusingCollaborators :: Collaborators where
  "refusingCollaborators =
     \<lparr>BeforeCreate = Inr, ValidateServiceExternalTrafficFieldsCombination = noErrors,
      servicesCreate = storeRefuses, CheckGeneratedNameError = sameError\<rparr>"

definition v4FirstOrders :: RangeOrders where
  "v4FirstOrders = \<lparr>allocOrder = V4First, fillOrder = V4First, releaseOrder = V4First\<rparr>"

section \<open>Evaluation of the concrete configurations\<close>

lemmas example_defs =
  exampleService_def exampleSpec_def textualNet_def hasColon_def singleStackREST_def dualStackREST_def
  exampleV4Allocator_def exampleV6Allocator_def examplePortAllocator_def memberOf_def firstFree_def
  exampleV4Range_def exampleV6Range_def examplePortRange_def emptyServiceStatus_def
  emptyLoadBalancerStatus_def examplePort_def


section \<open>Strategy: Export, PrepareForUpdate, status updates\<close>

text \<open>
  Claim C5, as stated: Export with exact=true returns the stored Service unchanged,
  Status included. It does not: the Status is blanked before \<open>exact\<close> is looked at
  (strategy.go line 146), as the first case of TestExportService expects.
\<close>

theorem Export_exact_blanks_Status_counterexample:
  "Export (ServiceObject (exampleService\<lparr>Status := \<lparr>LoadBalancer = \<lparr>Ingress = [\<lparr>IP = ''1.2.3.4'', Hostname = []\<rparr>]\<rparr>\<rparr>\<rparr>)) True
     = Inr exampleService
   \<and> exampleService\<lparr>Status := \<lparr>LoadBalancer = \<lparr>Ingress = [\<lparr>IP = ''1.2.3.4'', Hostname = []\<rparr>]\<rparr>\<rparr>\<rparr> \<noteq> exampleService"
  by (simp add: Export_def example_defs)

text \<open>
  Claim C5, amended: for every Service \<open>x\<close>, Export with exact=true succeeds and returns
  \<open>x\<close> with its Status blanked and everything else unchanged; in particular the Spec,
  with ClusterIPs and every Port's NodePort, is preserved.
\<close>

theorem Export_exact_keeps_all_but_Status:
  "Export (ServiceObject x) True = Inr (x\<lparr>Status := emptyServiceStatus\<rparr>)
   \<and> Spec (x\<lparr>Status := emptyServiceStatus\<rparr>) = Spec x
   \<and> Name (x\<lparr>Status := emptyServiceStatus\<rparr>) = Name x
   \<and> Namespace (x\<lparr>Status := emptyServiceStatus\<rparr>) = Namespace x"
  by (simp add: Export_def)

lemma dropServiceDisabledFields_keeps:
  "ClusterIPs (Spec (dropServiceDisabledFields g n oldS)) = ClusterIPs (Spec n)"
  "Type (Spec (dropServiceDisabledFields g n oldS)) = Type (Spec n)"
  "IPFamilies (Spec (dropServiceDisabledFields g n oldS)) = IPFamilies (Spec n)"
  "IPFamilyPolicy (Spec (dropServiceDisabledFields g n oldS)) = IPFamilyPolicy (Spec n)"
  by (auto simp: dropServiceDisabledFields_def Let_def serviceDualStackFieldsInUse_def)

text \<open>
  Claim C6: on an update from a type other than ExternalName to ExternalName,
  PrepareForUpdate clears ClusterIPs, IPFamilies and IPFamilyPolicy of the new object
  when its ClusterIPs is empty or is exactly one empty string; when some entry of the
  new ClusterIPs is not the empty string (also in a two-entry slice whose first entry
  is empty), the three fields are left as given.
\<close>

theorem PrepareForUpdate_to_ExternalName:
  assumes "Type (Spec oldService) \<noteq> ServiceTypeExternalName"
      and "Type (Spec newService) = ServiceTypeExternalName"
  shows "(ClusterIPs (Spec newService) = [] \<or> ClusterIPs (Spec newService) = [[]] \<longrightarrow>
            ClusterIPs (Spec (PrepareForUpdate gates newService oldService)) = []
          \<and> IPFamilies (Spec (PrepareForUpdate gates newService oldService)) = []
          \<and> IPFamilyPolicy (Spec (PrepareForUpdate gates newService oldService)) = None)
       \<and> ((\<exists>ip \<in> set (ClusterIPs (Spec newService)). ip \<noteq> []) \<longrightarrow>
            ClusterIPs (Spec (PrepareForUpdate gates newService oldService)) = ClusterIPs (Spec newService)
          \<and> IPFamilies (Spec (PrepareForUpdate gates newService oldService)) = IPFamilies (Spec newService)
          \<and> IPFamilyPolicy (Spec (PrepareForUpdate gates newService oldService))
              = IPFamilyPolicy (Spec newService))"
  using assms
  by (cases "ClusterIPs (Spec newService)")
     (auto simp: PrepareForUpdate_def clearClusterIPRelatedFields_def dropServiceDisabledFields_keeps)

theorem PrepareForUpdate_to_ExternalName_witness:
  "Type (Spec exampleService) \<noteq> ServiceTypeExternalName
   \<and> Type (Spec (exampleService\<lparr>Spec := exampleSpec\<lparr>Type := ServiceTypeExternalName, ClusterIPs := [[]],
        IPFamilies := [IPv4Protocol], IPFamilyPolicy := Some SingleStack\<rparr>\<rparr>)) = ServiceTypeExternalName
   \<and> IPFamilies (Spec (PrepareForUpdate \<lparr>IPv6DualStack = True, ServiceTopology = False\<rparr>
        (exampleService\<lparr>Spec := exampleSpec\<lparr>Type := ServiceTypeExternalName, ClusterIPs := [[]],
           IPFamilies := [IPv4Protocol], IPFamilyPolicy := Some SingleStack\<rparr>\<rparr>) exampleService)) = []
   \<and> IPFamilyPolicy (Spec (PrepareForUpdate \<lparr>IPv6DualStack = True, ServiceTopology = False\<rparr>
        (exampleService\<lparr>Spec := exampleSpec\<lparr>Type := ServiceTypeExternalName, ClusterIPs := [[]],
           IPFamilies := [IPv4Protocol], IPFamilyPolicy := Some SingleStack\<rparr>\<rparr>) exampleService)) = None
   \<and> ClusterIPs (Spec (PrepareForUpdate \<lparr>IPv6DualStack = True, ServiceTopology = False\<rparr>
        (exampleService\<lparr>Spec := exampleSpec\<lparr>Type := ServiceTypeExternalName, ClusterIPs := [[], ''2001:db8::1''],
           IPFamilies := [IPv4Protocol, IPv6Protocol], IPFamilyPolicy := Some RequireDualStack\<rparr>\<rparr>) exampleService))
       = [[], ''2001:db8::1'']
   \<and> IPFamilies (Spec (PrepareForUpdate \<lparr>IPv6DualStack = True, ServiceTopology = False\<rparr>
        (exampleService\<lparr>Spec := exampleSpec\<lparr>Type := ServiceTypeExternalName, ClusterIPs := [[], ''2001:db8::1''],
           IPFamilies := [IPv4Protocol, IPv6Protocol], IPFamilyPolicy := Some RequireDualStack\<rparr>\<rparr>) exampleService))
       = [IPv4Protocol, IPv6Protocol]"
  using PrepareForUpdate_to_ExternalName[of exampleService
          "exampleService\<lparr>Spec := exampleSpec\<lparr>Type := ServiceTypeExternalName, ClusterIPs := [[]],
             IPFamilies := [IPv4Protocol], IPFamilyPolicy := Some SingleStack\<rparr>\<rparr>"
          "\<lparr>IPv6DualStack = True, ServiceTopology = False\<rparr>"]
        PrepareForUpdate_to_ExternalName[of exampleService
          "exampleService\<lparr>Spec := exampleSpec\<lparr>Type := ServiceTypeExternalName, ClusterIPs := [[], ''2001:db8::1''],
             IPFamilies := [IPv4Protocol, IPv6Protocol], IPFamilyPolicy := Some RequireDualStack\<rparr>\<rparr>"
          "\<lparr>IPv6DualStack = True, ServiceTopology = False\<rparr>"]
  by (simp add: example_defs)


section \<open>The IP-family defaulter\<close>
















section \<open>Health-check node port on update\<close>

text \<open>
  Claim C7: on an update where NeedsHealthCheck holds for both the old and the new
  Service, healthCheckNodePortUpdate fails with an Invalid error on
  \<^verbatim>\<open>spec.healthCheckNodePort\<close> if the new HealthCheckNodePort differs from the old one, and
  succeeds if they are equal; in both cases the Service and the node-port operation are
  left as they were, so no allocation and no release is staged.
\<close>

theorem healthCheckNodePort_immutable_while_needed:
  assumes "NeedsHealthCheck oldService" and "NeedsHealthCheck service"
  shows "healthCheckNodePortUpdate oldService service nodePortOp =
           (if HealthCheckNodePort (Spec service) \<noteq> HealthCheckNodePort (Spec oldService)
            then ((False, Some (Invalid [Child ''spec'', Child ''healthCheckNodePort''])), service, nodePortOp)
            else ((True, None), service, nodePortOp))"
  using assms by (auto simp: healthCheckNodePortUpdate_def Let_def)

theorem healthCheckNodePort_immutable_while_needed_witness:
  "NeedsHealthCheck (exampleService\<lparr>Spec := exampleSpec\<lparr>Type := ServiceTypeLoadBalancer,
       ExternalTrafficPolicy := ServiceExternalTrafficPolicyTypeLocal, HealthCheckNodePort := 30000\<rparr>\<rparr>)
   \<and> NeedsHealthCheck (exampleService\<lparr>Spec := exampleSpec\<lparr>Type := ServiceTypeLoadBalancer,
       ExternalTrafficPolicy := ServiceExternalTrafficPolicyTypeLocal, HealthCheckNodePort := 30001\<rparr>\<rparr>)
   \<and> healthCheckNodePortUpdate
       (exampleService\<lparr>Spec := exampleSpec\<lparr>Type := ServiceTypeLoadBalancer,
          ExternalTrafficPolicy := ServiceExternalTrafficPolicyTypeLocal, HealthCheckNodePort := 30000\<rparr>\<rparr>)
       (exampleService\<lparr>Spec := exampleSpec\<lparr>Type := ServiceTypeLoadBalancer,
          ExternalTrafficPolicy := ServiceExternalTrafficPolicyTypeLocal, HealthCheckNodePort := 30001\<rparr>\<rparr>)
       (StartOperation examplePortAllocator False)
     = ((False, Some (Invalid [Child ''spec'', Child ''healthCheckNodePort''])),
        exampleService\<lparr>Spec := exampleSpec\<lparr>Type := ServiceTypeLoadBalancer,
          ExternalTrafficPolicy := ServiceExternalTrafficPolicyTypeLocal, HealthCheckNodePort := 30001\<rparr>\<rparr>,
        StartOperation examplePortAllocator False)
   \<and> healthCheckNodePortUpdate
       (exampleService\<lparr>Spec := exampleSpec\<lparr>Type := ServiceTypeLoadBalancer,
          ExternalTrafficPolicy := ServiceExternalTrafficPolicyTypeLocal, HealthCheckNodePort := 30000\<rparr>\<rparr>)
       (exampleService\<lparr>Spec := exampleSpec\<lparr>Type := ServiceTypeLoadBalancer,
          ExternalTrafficPolicy := ServiceExternalTrafficPolicyTypeLocal, HealthCheckNodePort := 30000\<rparr>\<rparr>)
       (StartOperation examplePortAllocator False)
     = ((True, None),
        exampleService\<lparr>Spec := exampleSpec\<lparr>Type := ServiceTypeLoadBalancer,
          ExternalTrafficPolicy := ServiceExternalTrafficPolicyTypeLocal, HealthCheckNodePort := 30000\<rparr>\<rparr>,
        StartOperation examplePortAllocator False)"
  using healthCheckNodePort_immutable_while_needed
          [of "exampleService\<lparr>Spec := exampleSpec\<lparr>Type := ServiceTypeLoadBalancer,
                 ExternalTrafficPolicy := ServiceExternalTrafficPolicyTypeLocal, HealthCheckNodePort := 30000\<rparr>\<rparr>"
              "exampleService\<lparr>Spec := exampleSpec\<lparr>Type := ServiceTypeLoadBalancer,
                 ExternalTrafficPolicy := ServiceExternalTrafficPolicyTypeLocal, HealthCheckNodePort := 30001\<rparr>\<rparr>"
              "StartOperation examplePortAllocator False"]
        healthCheckNodePort_immutable_while_needed
          [of "exampleService\<lparr>Spec := exampleSpec\<lparr>Type := ServiceTypeLoadBalancer,
                 ExternalTrafficPolicy := ServiceExternalTrafficPolicyTypeLocal, HealthCheckNodePort := 30000\<rparr>\<rparr>"
              "exampleService\<lparr>Spec := exampleSpec\<lparr>Type := ServiceTypeLoadBalancer,
                 ExternalTrafficPolicy := ServiceExternalTrafficPolicyTypeLocal, HealthCheckNodePort := 30000\<rparr>\<rparr>"
              "StartOperation examplePortAllocator False"]
  by (simp add: example_defs NeedsHealthCheck_def)

section \<open>Release of cluster IPs\<close>

lemma ipRelease_result: "ipRelease ip a = Inr (a\<lparr>allocatedIPs := allocatedIPs a - {ip}\<rparr>)"
  by (simp add: ipRelease_def)

text \<open>One round of the release loop, by the three ways it can go.\<close>

lemma release_step_absent:
  "m family = None \<Longrightarrow>
   releaseClusterIPsLoop L (family # fs) m rs rel = releaseClusterIPsLoop L fs m rs rel"
  by simp

lemma release_step_unconfigured:
  "serviceIPAllocatorsByFamily rs family = None \<Longrightarrow>
   releaseClusterIPsLoop L (family # fs) m rs rel = releaseClusterIPsLoop L fs m rs rel"
  by (simp split: option.splits)

lemma release_step_configured:
  "m family = Some ip \<Longrightarrow> serviceIPAllocatorsByFamily rs family = Some allocator \<Longrightarrow>
   releaseClusterIPsLoop L (family # fs) m rs rel =
     releaseClusterIPsLoop L fs m
       (rs\<lparr>serviceIPAllocatorsByFamily := (serviceIPAllocatorsByFamily rs)
             (family \<mapsto> allocator\<lparr>allocatedIPs := allocatedIPs allocator - {ParseIP L ip}\<rparr>)\<rparr>)
       (rel(family \<mapsto> ip))"
  by (simp add: ipRelease_result)

text \<open>
  The release loop never fails, keeps the set of configured families, reports no
  family without an allocator, and does the same on the map restricted to the
  configured families.
\<close>

lemma releaseClusterIPsLoop_facts:
  assumes "releaseClusterIPsLoop L fs m rs rel = ((rel', err), rs')"
  shows "err = None
       \<and> (\<forall>f. (serviceIPAllocatorsByFamily rs' f = None) = (serviceIPAllocatorsByFamily rs f = None))
       \<and> (\<forall>f. serviceIPAllocatorsByFamily rs f = None \<longrightarrow> rel' f = rel f)"
  using assms
proof (induction fs arbitrary: rs rel)
  case Nil
  then show ?case by simp
next
  case (Cons family fs)
  show ?case
  proof (cases "m family")
    case None
    from Cons.prems have "releaseClusterIPsLoop L fs m rs rel = ((rel', err), rs')"
      by (simp only: release_step_absent[where m = m and family = family, OF None])
    from Cons.IH[OF this] show ?thesis .
  next
    case ip: (Some ip)
    show ?thesis
    proof (cases "serviceIPAllocatorsByFamily rs family")
      case None
      from Cons.prems have "releaseClusterIPsLoop L fs m rs rel = ((rel', err), rs')"
        by (simp only: release_step_unconfigured[where rs = rs and family = family, OF None])
      from Cons.IH[OF this] show ?thesis .
    next
      case (Some allocator)
      let ?rs1 = "rs\<lparr>serviceIPAllocatorsByFamily := (serviceIPAllocatorsByFamily rs)
                     (family \<mapsto> allocator\<lparr>allocatedIPs := allocatedIPs allocator - {ParseIP L ip}\<rparr>)\<rparr>"
      from Cons.prems
      have "releaseClusterIPsLoop L fs m ?rs1 (rel(family \<mapsto> ip)) = ((rel', err), rs')"
        by (simp only: release_step_configured[where m = m and family = family and rs = rs, OF ip Some])
      from Cons.IH[OF this]
      have e: "err = None"
        and d: "\<forall>f. (serviceIPAllocatorsByFamily rs' f = None) = (serviceIPAllocatorsByFamily ?rs1 f = None)"
        and r: "\<forall>f. serviceIPAllocatorsByFamily ?rs1 f = None \<longrightarrow> rel' f = (rel(family \<mapsto> ip)) f"
        by blast+
      have d': "(serviceIPAllocatorsByFamily rs' f = None) = (serviceIPAllocatorsByFamily rs f = None)" for f
        using d[rule_format, of f] Some by (cases "f = family") simp_all
      have r': "rel' f = rel f" if "serviceIPAllocatorsByFamily rs f = None" for f
      proof -
        from that Some have ne: "f \<noteq> family" by auto
        with that r[rule_format, of f] show ?thesis by simp
      qed
      from e d' r' show ?thesis by blast
    qed
  qed
qed

lemma releaseClusterIPsLoop_restrict:
  assumes "\<forall>f. (serviceIPAllocatorsByFamily rs f = None) = (cfg f = None)"
  shows "releaseClusterIPsLoop L fs (m |` {f. cfg f \<noteq> None}) rs rel = releaseClusterIPsLoop L fs m rs rel"
  using assms
proof (induction fs arbitrary: rs rel)
  case Nil
  then show ?case by simp
next
  case (Cons family fs)
  show ?case
  proof (cases "serviceIPAllocatorsByFamily rs family")
    case None
    show ?thesis
      by (simp only: release_step_unconfigured[where rs = rs and family = family, OF None] Cons.IH[OF Cons.prems])
  next
    case (Some allocator)
    then have in_dom: "cfg family \<noteq> None" using Cons.prems[rule_format, of family] by simp
    show ?thesis
    proof (cases "m family")
      case None
      then have none': "(m |` {f. cfg f \<noteq> None}) family = None" by (simp add: restrict_map_def)
      show ?thesis
        by (simp only: release_step_absent[where m = m and family = family, OF None]
              release_step_absent[where m = "m |` {f. cfg f \<noteq> None}" and family = family, OF none']
              Cons.IH[OF Cons.prems])
    next
      case ip: (Some ip)
      let ?rs1 = "rs\<lparr>serviceIPAllocatorsByFamily := (serviceIPAllocatorsByFamily rs)
                     (family \<mapsto> allocator\<lparr>allocatedIPs := allocatedIPs allocator - {ParseIP L ip}\<rparr>)\<rparr>"
      have inv: "\<forall>f. (serviceIPAllocatorsByFamily ?rs1 f = None) = (cfg f = None)"
        using Cons.prems in_dom by auto
      have ip': "(m |` {f. cfg f \<noteq> None}) family = Some ip"
        using ip in_dom by (simp add: restrict_map_def)
      show ?thesis
        by (simp only: release_step_configured[where m = m and family = family and rs = rs, OF ip Some] release_step_configured[where m = "m |` {f. cfg f \<noteq> None}" and family = family and rs = rs, OF ip' Some]
              Cons.IH[OF inv])
    qed
  qed
qed

lemma toReleaseLoop_in_range:
  "i + length fs \<le> length cips \<Longrightarrow> \<exists>m'. toReleaseLoop i fs cips m = Some m'"
  by (induction fs arbitrary: i m) auto

text \<open>
  Claim C10: for every family-to-IP map given to releaseClusterIPs, the entries whose
  family has no allocator in serviceIPAllocatorsByFamily are skipped: the call returns
  no error, the map of released addresses has no entry for such a family, and result
  and allocators are those of the call on the map without these entries. So a release
  on behalf of Delete or of a Create/Update rollback does not fail because the Service
  holds an IP of a family that is no longer configured: releaseServiceClusterIPs
  returns no error for any Service that has a ClusterIP for each of its IPFamilies.
\<close>

theorem releaseClusterIPs_skips_unconfigured_families:
  "snd (fst (releaseClusterIPs L order rs (Some toRelease))) = None
   \<and> (\<exists>released. fst (fst (releaseClusterIPs L order rs (Some toRelease))) = Some released
         \<and> (\<forall>family. \<not> familyConfigured rs family \<longrightarrow> released family = None))
   \<and> releaseClusterIPs L order rs (Some (toRelease |` {family. familyConfigured rs family}))
       = releaseClusterIPs L order rs (Some toRelease)
   \<and> (length (IPFamilies (Spec service)) \<le> length (ClusterIPs (Spec service)) \<longrightarrow>
        snd (fst (releaseServiceClusterIPs L order rs service)) = None)"
proof -
  obtain rel' err rs' where
    r: "releaseClusterIPsLoop L (rangeOrder order) toRelease rs Map.empty = ((rel', err), rs')"
    by (metis surj_pair)
  from releaseClusterIPsLoop_facts[OF r]
  have e: "err = None" and d: "\<forall>f. serviceIPAllocatorsByFamily rs f = None \<longrightarrow> rel' f = None"
    by auto
  have same: "releaseClusterIPsLoop L (rangeOrder order)
                 (toRelease |` {f. serviceIPAllocatorsByFamily rs f \<noteq> None}) rs Map.empty
              = releaseClusterIPsLoop L (rangeOrder order) toRelease rs Map.empty"
    by (rule releaseClusterIPsLoop_restrict) simp
  have noerr: "snd (fst (releaseClusterIPs L order rs (Some m))) = None" for m
  proof -
    obtain rel1 err1 rs1 where
      r1: "releaseClusterIPsLoop L (rangeOrder order) m rs Map.empty = ((rel1, err1), rs1)"
      by (metis surj_pair)
    from releaseClusterIPsLoop_facts[OF r1] r1 show ?thesis
      by (simp add: releaseClusterIPs_def)
  qed
  have svc: "snd (fst (releaseServiceClusterIPs L order rs service)) = None"
    if "length (IPFamilies (Spec service)) \<le> length (ClusterIPs (Spec service))"
  proof -
    from that toReleaseLoop_in_range[of 0 "IPFamilies (Spec service)" "ClusterIPs (Spec service)" Map.empty]
    obtain m' where "toReleaseLoop 0 (IPFamilies (Spec service)) (ClusterIPs (Spec service)) Map.empty = Some m'"
      by auto
    then show ?thesis using noerr[of m'] by (simp add: releaseServiceClusterIPs_def)
  qed
  show ?thesis
    using r e d same svc by (simp add: releaseClusterIPs_def familyConfigured_def)
qed

theorem releaseClusterIPs_skips_unconfigured_families_witness:
  "\<not> familyConfigured singleStackREST IPv6Protocol
   \<and> releaseClusterIPs textualNet V6First singleStackREST
        (Some [IPv4Protocol \<mapsto> ''10.0.0.1'', IPv6Protocol \<mapsto> ''2001:db8::1''])
     = releaseClusterIPs textualNet V6First singleStackREST
        (Some ([IPv4Protocol \<mapsto> ''10.0.0.1'', IPv6Protocol \<mapsto> ''2001:db8::1'']
                 |` {family. familyConfigured singleStackREST family}))
   \<and> snd (fst (releaseClusterIPs textualNet V6First singleStackREST
        (Some [IPv4Protocol \<mapsto> ''10.0.0.1'', IPv6Protocol \<mapsto> ''2001:db8::1'']))) = None
   \<and> the (fst (fst (releaseClusterIPs textualNet V6First singleStackREST
        (Some [IPv4Protocol \<mapsto> ''10.0.0.1'', IPv6Protocol \<mapsto> ''2001:db8::1''])))) IPv6Protocol = None
   \<and> the (fst (fst (releaseClusterIPs textualNet V6First singleStackREST
        (Some [IPv4Protocol \<mapsto> ''10.0.0.1'', IPv6Protocol \<mapsto> ''2001:db8::1''])))) IPv4Protocol
       = Some ''10.0.0.1''
   \<and> snd (fst (releaseServiceClusterIPs textualNet V6First singleStackREST
        (exampleService\<lparr>Spec := exampleSpec\<lparr>ClusterIPs := [''10.0.0.1'', ''2001:db8::1''],
            IPFamilies := [IPv4Protocol, IPv6Protocol]\<rparr>\<rparr>))) = None"
  using releaseClusterIPs_skips_unconfigured_families
          [where L = textualNet and order = V6First and rs = singleStackREST
             and toRelease = "[IPv4Protocol \<mapsto> ''10.0.0.1'', IPv6Protocol \<mapsto> ''2001:db8::1'']"
             and service = "exampleService\<lparr>Spec := exampleSpec\<lparr>ClusterIPs := [''10.0.0.1'', ''2001:db8::1''],
                   IPFamilies := [IPv4Protocol, IPv6Protocol]\<rparr>\<rparr>"]
  by (simp add: releaseClusterIPs_def ipRelease_def familyConfigured_def singleStackREST_def example_defs)

section \<open>Node ports at create time\<close>






















end
